theory Spec2Isabelle
  imports Main "HOL-Library.Word"
begin

unbundle bit_operations_syntax

section \<open>Instruction codec (utilities/BytecodeUtilities.js)\<close>

text \<open>
  JavaScript's bitwise operators work on 32-bit integers, so the arguments and results of
  the codec are \<open>32 word\<close>: \<open><<\<close> is \<open>push_bit\<close>, \<open>>>>\<close> is \<open>drop_bit\<close>,
  \<open>&\<close> is \<open>AND\<close> and \<open>|\<close> is \<open>OR\<close>.
\<close>

type_synonym number = "32 word"

definition OPCODE_MASK :: number where
  "OPCODE_MASK = 0xE000"

definition MODCODE_MASK :: number where
  "MODCODE_MASK = 0x1800"

definition OPERAND_MASK :: number where
  "OPERAND_MASK = 0x07FF"

text \<open>
  Modelled from the spec: the constants of the package \<open>bali-instruction-set/Types\<close>, which
  is not part of the sources. The eight operations are numbered in the order JUMP, PUSH, POP,
  LOAD, STORE, INVOKE, EXECUTE, HANDLE, and the modifiers in the order of the handler table
  of the virtual machine (slot \<open>(operation << 2) | modifier\<close>).
\<close>

definition JUMP :: number where "JUMP = 0"
definition PUSH :: number where "PUSH = 1"
definition POP :: number where "POP = 2"
definition LOAD :: number where "LOAD = 3"
definition STORE :: number where "STORE = 4"
definition INVOKE :: number where "INVOKE = 5"
definition EXECUTE :: number where "EXECUTE = 6"
definition HANDLE :: number where "HANDLE = 7"

definition HANDLER :: number where "HANDLER = 0"
definition ELEMENT :: number where "ELEMENT = 1"
definition CODE :: number where "CODE = 2"
definition COMPONENT :: number where "COMPONENT = 1"
definition EXCEPTION :: number where "EXCEPTION = 0"
definition RESULT :: number where "RESULT = 1"
definition MESSAGE :: number where "MESSAGE = 3"

lemmas types_defs =
  JUMP_def PUSH_def POP_def LOAD_def STORE_def INVOKE_def EXECUTE_def HANDLE_def
  HANDLER_def ELEMENT_def CODE_def COMPONENT_def EXCEPTION_def RESULT_def MESSAGE_def

text \<open>
  \<open>encodeInstruction\<close>: the operation and the modifier are shifted and masked, the operand
  is or-ed in as it is. (An omitted operand is 0; the model takes the operand explicitly.)
\<close>

definition encodeInstruction :: "number \<Rightarrow> number \<Rightarrow> number \<Rightarrow> number" where
  "encodeInstruction operation modifier optionalOperand =
     (let opcode = push_bit 13 operation AND OPCODE_MASK;
          modcode = push_bit 11 modifier AND MODCODE_MASK;
          operand = optionalOperand
      in opcode OR modcode OR operand)"

definition decodeOperation :: "number \<Rightarrow> number" where
  "decodeOperation instruction = drop_bit 13 (instruction AND OPCODE_MASK)"

definition decodeModifier :: "number \<Rightarrow> number" where
  "decodeModifier instruction = drop_bit 11 (instruction AND MODCODE_MASK)"

definition decodeOperand :: "number \<Rightarrow> number" where
  "decodeOperand instruction = instruction AND OPERAND_MASK"

definition operandIsAddress :: "number \<Rightarrow> bool" where
  "operandIsAddress instruction =
     (let operation = decodeOperation instruction;
          modifier = decodeModifier instruction;
          operand = decodeOperand instruction
      in if operation = JUMP then operand > 0
         else if operation = PUSH then modifier = HANDLER
         else False)"

definition operandIsIndex :: "number \<Rightarrow> bool" where
  "operandIsIndex instruction =
     (let operation = decodeOperation instruction;
          modifier = decodeModifier instruction
      in if operation = PUSH then modifier \<noteq> HANDLER
         else if operation = LOAD \<or> operation = STORE \<or> operation = INVOKE
                 \<or> operation = EXECUTE then True
         else False)"

definition instructionIsValid :: "number \<Rightarrow> bool" where
  "instructionIsValid instruction =
     (let operation = decodeOperation instruction;
          modifier = decodeModifier instruction;
          operand = decodeOperand instruction
      in if operation = JUMP then operand > 0 \<or> modifier = 0
         else if operation = PUSH then
           (if modifier = HANDLER \<or> modifier = ELEMENT \<or> modifier = CODE
            then operand > 0 else False)
         else if operation = POP then
           (if modifier = HANDLER \<or> modifier = COMPONENT then operand = 0 else False)
         else if operation = LOAD \<or> operation = STORE \<or> operation = INVOKE
                 \<or> operation = EXECUTE then operand > 0
         else if operation = HANDLE then
           (if modifier = EXCEPTION \<or> modifier = RESULT then operand = 0 else False)
         else False)"


text \<open>
  Modelled from the spec: \<open>codex.bytesToShort\<close> and \<open>codex.shortToBytes\<close> of the
  package \<open>bali-document-notation\<close>, which is not part of the sources. Two bytes pair
  into one word, big-endian; \<open>bytesToShort\<close> reads the first two bytes of its argument,
  a missing byte as 0.
\<close>

fun bytesToShort :: "8 word list \<Rightarrow> 16 word" where
  "bytesToShort (b1 # b2 # rest) = push_bit 8 (ucast b1) OR ucast b2"
| "bytesToShort [b1] = push_bit 8 (ucast b1)"
| "bytesToShort [] = 0"

definition shortToBytes :: "16 word \<Rightarrow> 8 word list" where
  "shortToBytes word = [ucast (drop_bit 8 word), ucast word]"

text \<open>
  \<open>base16ToBytecode\<close>, on the bytes that \<open>codex.base16Decode\<close> returns: the loop
  \<open>for (i = 0; i < bytes.length; i += 2)\<close> pushes \<open>bytesToShort(bytes.slice(i))\<close>.
\<close>

fun base16ToBytecode :: "8 word list \<Rightarrow> 16 word list" where
  "base16ToBytecode (b1 # b2 # rest) = bytesToShort (b1 # b2 # rest) # base16ToBytecode rest"
| "base16ToBytecode [b1] = [bytesToShort [b1]]"
| "base16ToBytecode [] = []"

text \<open>
  \<open>bytecodeTobase16\<close> (the module exports it under this spelling), up to the base 16
  encoding and the indentation of the bytes, which \<open>codex.base16Encode\<close> does.
\<close>

definition bytecodeTobase16 :: "16 word list \<Rightarrow> 8 word list" where
  "bytecodeTobase16 bytecode = concat (map shortToBytes bytecode)"

text \<open>The names that the module assigns to \<open>exports\<close>, in the order of the file.\<close>

definition BytecodeUtilities_exports :: "string list" where
  "BytecodeUtilities_exports =
     [''encodeInstruction'', ''decodeOperation'', ''decodeModifier'', ''decodeOperand'',
      ''operandIsAddress'', ''operandIsIndex'', ''instructionIsValid'',
      ''instructionToBase16'', ''getInstruction'', ''base16ToBytecode'',
      ''bytecodeTobase16'', ''bytecodeAsString'', ''instructionAsString'']"


section \<open>Values, errors and the external collaborators\<close>

text \<open>
  Modelled from the spec: the values on the component stack (package
  \<open>bali-primitive-types\<close>, not part of the sources): the templates NONE, TRUE and FALSE,
  numbers, symbols, references (tag, version, digest), lists and catalogs.
  \<open>equalTo\<close> is equality of values.
\<close>

datatype component =
    NONE
  | TRUE
  | FALSE
  | Number int
  | Symbol string
  | Reference string string string
  | Items "component list"
  | Catalog "(component \<times> component) list"

text \<open>
  Every \<open>throw\<close> of the virtual machine and every failure of the JavaScript runtime or of
  an external call is a value of type \<open>error\<close>; a function that can fail returns
  \<open>error + 'a\<close>.
\<close>

datatype error =
    ProcessorError string
  | TypeError string
  | StackUnderflow
  | IndexOutOfRange
  | NotAReference
  | RepositoryFailure
  | IntrinsicFailure component

definition ZERO_ADDRESS :: error where
  "ZERO_ADDRESS = ProcessorError ''PROCESSOR: The current instruction has a zero address operand.''"

definition ZERO_INDEX :: error where
  "ZERO_INDEX = ProcessorError ''PROCESSOR: The current instruction has a zero index operand.''"

definition NON_ZERO_OPERAND :: error where
  "NON_ZERO_OPERAND = ProcessorError ''PROCESSOR: The current instruction has a non-zero operand.''"

text \<open>
  Modelled from the spec: the collections of \<open>bali-primitive-types\<close>. Lists are indexed
  from 1 and an index out of range is a fault; popping an empty stack is a fault (stack
  underflow). A stack is a list with its top at the head.
\<close>

definition getItem :: "'a list \<Rightarrow> int \<Rightarrow> error + 'a" where
  "getItem xs index =
     (if 1 \<le> index \<and> index \<le> int (length xs) then Inr (xs ! nat (index - 1))
      else Inl IndexOutOfRange)"

definition setItem :: "'a list \<Rightarrow> int \<Rightarrow> 'a \<Rightarrow> error + 'a list" where
  "setItem xs index x =
     (if 1 \<le> index \<and> index \<le> int (length xs) then Inr (xs[nat (index - 1) := x])
      else Inl IndexOutOfRange)"

definition popItem :: "'a list \<Rightarrow> error + ('a \<times> 'a list)" where
  "popItem stack = (case stack of [] \<Rightarrow> Inl StackUnderflow | x # rest \<Rightarrow> Inr (x, rest))"

definition getValue :: "component \<Rightarrow> string \<Rightarrow> error + component" where
  "getValue document key =
     (case document of
        Catalog associations \<Rightarrow>
          (case map_of associations (Symbol key) of
             None \<Rightarrow> Inl (TypeError ''Cannot read property of undefined'')
           | Some v \<Rightarrow> Inr v)
      | _ \<Rightarrow> Inl (TypeError ''getValue is not a function''))"


section \<open>Task and procedure contexts (processor/VirtualMachine.js)\<close>

text \<open>
  A procedure document is the catalog that \<open>importProcedure\<close> reads with \<open>getValue\<close>;
  its \<open>$bytecodeInstructions\<close> is a binary literal, given here by its bytes.
\<close>

record procedure =
  doc_targetComponent :: component
  doc_typeReference :: component
  doc_procedureName :: component
  doc_parameterValues :: "component list"
  doc_literalValues :: "component list"
  doc_variableValues :: "component list"
  doc_bytecodeInstructions :: "8 word list"
  doc_nextAddress :: int

text \<open>
  The numbers of a task (\<open>accountBalance\<close>, \<open>clockCycles\<close>, \<open>nextAddress\<close>) are read
  from the documents with \<open>toNumber()\<close>. The model has them as integers: it covers the task
  documents of the data model, whose counters and addresses are integers, of a magnitude
  below \<open>2 ^ 53\<close>, where the increments and decrements of JavaScript are exact.
\<close>

text \<open>
  The procedure context that \<open>importProcedure\<close> builds. \<open>currentInstruction\<close> is the
  property that \<open>fetchInstruction\<close> sets; it is undefined (\<open>None\<close>) before.
\<close>

record procedureContext =
  targetComponent :: component
  typeReference :: component
  procedureName :: component
  parameterValues :: "component list"
  literalValues :: "component list"
  variableValues :: "component list"
  bytecodeInstructions :: "16 word list"
  nextAddress :: int
  currentInstruction :: "16 word option"

text \<open>
  \<open>processor.procedureContext\<close> holds an imported context after \<open>fromTask\<close>. HANDLE
  RESULT and HANDLE EXCEPTION assign \<open>procedureStack.getTop()\<close> to it, which is a
  procedure document that was never imported: a catalog, read through \<open>getValue\<close>, that
  has no properties \<open>nextAddress\<close>, \<open>bytecodeInstructions\<close> or \<open>currentInstruction\<close>.
\<close>

datatype frame = Context procedureContext | Document procedure

record taskContext =
  taskTag :: component
  accountTag :: component
  accountBalance :: int
  processorStatus :: string
  clockCycles :: int
  componentStack :: "component list"
  handlerStack :: "int list"
  procedureStack :: "procedure list"
  result :: "component option"
  exception :: "component option"

text \<open>The task document that \<open>importTask\<close> reads with \<open>getValue\<close>.\<close>

record task =
  doc_taskTag :: component
  doc_accountTag :: component
  doc_accountBalance :: int
  doc_processorStatus :: string
  doc_clockCycles :: int
  doc_componentStack :: "component list"
  doc_handlerStack :: "int list"
  doc_procedureStack :: "procedure list"

definition ACTIVE :: string where "ACTIVE = ''$active''"
definition WAITING :: string where "WAITING = ''$waiting''"
definition DONE :: string where "DONE = ''$done''"

text \<open>
  \<open>exportTask\<close> is \<open>Catalog.fromCollection(taskContext)\<close>, a function of the package
  \<open>bali-primitive-types\<close>: the exported task is the catalog built from the task context.
\<close>

datatype exportedTask = FromCollection taskContext

definition exportTask :: "taskContext \<Rightarrow> exportedTask" where
  "exportTask context = FromCollection context"

definition importTask :: "task \<Rightarrow> taskContext" where
  "importTask document =
     \<lparr>taskTag = doc_taskTag document,
      accountTag = doc_accountTag document,
      accountBalance = doc_accountBalance document,
      processorStatus = doc_processorStatus document,
      clockCycles = doc_clockCycles document,
      componentStack = doc_componentStack document,
      handlerStack = doc_handlerStack document,
      procedureStack = doc_procedureStack document,
      result = None,
      exception = None\<rparr>"

definition importProcedure :: "procedure \<Rightarrow> procedureContext" where
  "importProcedure document =
     \<lparr>targetComponent = doc_targetComponent document,
      typeReference = doc_typeReference document,
      procedureName = doc_procedureName document,
      parameterValues = doc_parameterValues document,
      literalValues = doc_literalValues document,
      variableValues = doc_variableValues document,
      bytecodeInstructions = base16ToBytecode (doc_bytecodeInstructions document),
      nextAddress = doc_nextAddress document,
      currentInstruction = None\<rparr>"

text \<open>
  \<open>exportProcedure\<close> first calls \<open>bytecode.bytecodeToBase16\<close>. Calling a property that
  the module does not export is a TypeError of the runtime; otherwise the context becomes a
  catalog with the bytecode as a binary literal.
\<close>

definition exportProcedure :: "procedureContext \<Rightarrow> error + procedure" where
  "exportProcedure context =
     (if ''bytecodeToBase16'' \<in> set BytecodeUtilities_exports then
        Inr \<lparr>doc_targetComponent = targetComponent context,
             doc_typeReference = typeReference context,
             doc_procedureName = procedureName context,
             doc_parameterValues = parameterValues context,
             doc_literalValues = literalValues context,
             doc_variableValues = variableValues context,
             doc_bytecodeInstructions = bytecodeTobase16 (bytecodeInstructions context),
             doc_nextAddress = nextAddress context\<rparr>
      else Inl (TypeError ''bytecode.bytecodeToBase16 is not a function''))"


section \<open>The environment\<close>

text \<open>
  Modelled from the spec: the repository interface of the package \<open>bali-cloud-api\<close>
  (retrieve and commit documents, retrieve and save drafts, receive and queue messages,
  publish events) and the citations of \<open>bali-digital-notary\<close>, none of which is part of
  the sources. Receiving from a queue is a non-blocking dequeue. A queue is named by the
  value that refers to it. The wait queue of suspended tasks, whose messages are task
  documents, is a component of its own.
\<close>

datatype event =
    Completion component component int int component
  | Suspension exportedTask

record environment =
  documents :: "string \<times> string \<times> string \<Rightarrow> component option"
  drafts :: "string \<times> string \<Rightarrow> component option"
  queues :: "component \<Rightarrow> component list"
  waitQueue :: "exportedTask list"
  events :: "event list"
  notarize :: "component \<Rightarrow> string"

definition fromReference :: "component \<Rightarrow> error + (string \<times> string \<times> string)" where
  "fromReference reference =
     (case reference of Reference tag version digest \<Rightarrow> Inr (tag, version, digest)
      | _ \<Rightarrow> Inl NotAReference)"

definition retrieveDocument ::
  "environment \<Rightarrow> string \<times> string \<times> string \<Rightarrow> error + component" where
  "retrieveDocument env citation =
     (case documents env citation of None \<Rightarrow> Inl RepositoryFailure | Some d \<Rightarrow> Inr d)"

definition retrieveDraft :: "environment \<Rightarrow> string \<Rightarrow> string \<Rightarrow> error + component" where
  "retrieveDraft env tag version =
     (case drafts env (tag, version) of None \<Rightarrow> Inl RepositoryFailure | Some d \<Rightarrow> Inr d)"

definition saveDraft :: "environment \<Rightarrow> string \<Rightarrow> string \<Rightarrow> component \<Rightarrow> environment" where
  "saveDraft env tag version draft = env\<lparr>drafts := (drafts env)((tag, version) \<mapsto> draft)\<rparr>"

definition commitDocument ::
  "environment \<Rightarrow> string \<Rightarrow> string \<Rightarrow> component \<Rightarrow> (string \<times> string \<times> string) \<times> environment" where
  "commitDocument env tag version document =
     (let citation = (tag, version, notarize env document)
      in (citation, env\<lparr>documents := (documents env)(citation \<mapsto> document)\<rparr>))"

definition receiveMessage :: "environment \<Rightarrow> component \<Rightarrow> component option \<times> environment" where
  "receiveMessage env queue =
     (case queues env queue of
        [] \<Rightarrow> (None, env)
      | message # rest \<Rightarrow> (Some message, env\<lparr>queues := (queues env)(queue := rest)\<rparr>))"

definition queueMessage :: "environment \<Rightarrow> component \<Rightarrow> component \<Rightarrow> environment" where
  "queueMessage env queue message =
     env\<lparr>queues := (queues env)(queue := queues env queue @ [message])\<rparr>"

definition publishEvent :: "environment \<Rightarrow> event \<Rightarrow> environment" where
  "publishEvent env e = env\<lparr>events := events env @ [e]\<rparr>"

text \<open>
  Modelled from the spec: the table \<open>intrinsics.intrinsicFunctions\<close> of
  \<open>intrinsics/IntrinsicFunctions\<close>, which is not part of the sources: a JavaScript array
  of opaque functions from the list of parameters to a result or a failure. The functions
  that take such a table have it as their first argument. Applying an entry that the array
  does not have is a TypeError of the runtime.
\<close>

type_synonym intrinsic = "component list \<Rightarrow> error + component"

definition applyIntrinsic :: "intrinsic list \<Rightarrow> int \<Rightarrow> component list \<Rightarrow> error + component" where
  "applyIntrinsic intrinsicFunctions index parameters =
     (if 0 \<le> index \<and> index < int (length intrinsicFunctions)
      then (intrinsicFunctions ! nat index) parameters
      else Inl (TypeError ''Cannot read property apply of undefined''))"


section \<open>The processor and its instruction handlers (processor/VirtualMachine.js)\<close>

record processor =
  environment :: environment
  taskContext :: taskContext
  procedureContext :: frame

text \<open>
  A handler is called as \<open>instructionHandlers[index](processor, operand)\<close>. Handlers are only
  called on a processor whose \<open>procedureContext\<close> is an imported context; the model passes
  that context as the second argument, and a handler that changes it stores it back. A
  handler that throws returns \<open>Inl\<close>.
\<close>

type_synonym handler = "processor \<Rightarrow> procedureContext \<Rightarrow> int \<Rightarrow> error + processor"

definition pushComponent :: "component \<Rightarrow> processor \<Rightarrow> processor" where
  "pushComponent x p =
     p\<lparr>taskContext := (taskContext p)\<lparr>componentStack := x # componentStack (taskContext p)\<rparr>\<rparr>"

definition popComponent :: "processor \<Rightarrow> error + (component \<times> processor)" where
  "popComponent p =
     (case popItem (componentStack (taskContext p)) of
        Inl e \<Rightarrow> Inl e
      | Inr (x, rest) \<Rightarrow> Inr (x, p\<lparr>taskContext := (taskContext p)\<lparr>componentStack := rest\<rparr>\<rparr>))"

definition JUMP_TO_label :: handler where
  "JUMP_TO_label p c operand =
     (if operand \<noteq> 0 then Inr (p\<lparr>procedureContext := Context (c\<lparr>nextAddress := operand\<rparr>)\<rparr>)
      else Inr p)"

text \<open>The three conditional jumps differ in the template that the condition is compared with.\<close>

definition JUMP_TO_label_ON :: "component \<Rightarrow> handler" where
  "JUMP_TO_label_ON template p c operand =
     (if operand = 0 then Inl ZERO_ADDRESS
      else case popComponent p of
        Inl e \<Rightarrow> Inl e
      | Inr (condition, p1) \<Rightarrow>
          if template = condition
          then Inr (p1\<lparr>procedureContext := Context (c\<lparr>nextAddress := operand\<rparr>)\<rparr>)
          else Inr p1)"

definition JUMP_TO_label_ON_NONE :: handler where
  "JUMP_TO_label_ON_NONE = JUMP_TO_label_ON NONE"

definition JUMP_TO_label_ON_TRUE :: handler where
  "JUMP_TO_label_ON_TRUE = JUMP_TO_label_ON TRUE"

definition JUMP_TO_label_ON_FALSE :: handler where
  "JUMP_TO_label_ON_FALSE = JUMP_TO_label_ON FALSE"

text \<open>
  The handler stack holds the addresses as numbers (the source wraps each address in a
  \<open>Complex\<close> element when it pushes it).
\<close>

definition PUSH_HANDLER_label :: handler where
  "PUSH_HANDLER_label p c operand =
     (if operand = 0 then Inl ZERO_ADDRESS
      else Inr (p\<lparr>taskContext :=
                  (taskContext p)\<lparr>handlerStack := operand # handlerStack (taskContext p)\<rparr>\<rparr>))"

definition PUSH_ELEMENT_literal :: handler where
  "PUSH_ELEMENT_literal p c operand =
     (if operand = 0 then Inl ZERO_INDEX
      else case getItem (literalValues c) operand of
        Inl e \<Rightarrow> Inl e
      | Inr literal \<Rightarrow> Inr (pushComponent literal p))"

definition PUSH_CODE_literal :: handler where
  "PUSH_CODE_literal p c operand =
     (if operand = 0 then Inl ZERO_INDEX
      else case getItem (literalValues c) operand of
        Inl e \<Rightarrow> Inl e
      | Inr code \<Rightarrow> Inr (pushComponent code p))"

definition UNIMPLEMENTED :: "string \<Rightarrow> handler" where
  "UNIMPLEMENTED message p c operand = Inl (ProcessorError message)"

definition POP_HANDLER :: handler where
  "POP_HANDLER p c operand =
     (if operand \<noteq> 0 then Inl NON_ZERO_OPERAND
      else case popItem (handlerStack (taskContext p)) of
        Inl e \<Rightarrow> Inl e
      | Inr (address, rest) \<Rightarrow> Inr (p\<lparr>taskContext := (taskContext p)\<lparr>handlerStack := rest\<rparr>\<rparr>))"

definition POP_COMPONENT :: handler where
  "POP_COMPONENT p c operand =
     (if operand \<noteq> 0 then Inl NON_ZERO_OPERAND
      else case popComponent p of
        Inl e \<Rightarrow> Inl e
      | Inr (x, p1) \<Rightarrow> Inr p1)"

definition LOAD_VARIABLE_symbol :: handler where
  "LOAD_VARIABLE_symbol p c operand =
     (if operand = 0 then Inl ZERO_INDEX
      else case getItem (variableValues c) operand of
        Inl e \<Rightarrow> Inl e
      | Inr variable \<Rightarrow> Inr (pushComponent variable p))"

definition LOAD_PARAMETER_symbol :: handler where
  "LOAD_PARAMETER_symbol p c operand =
     (if operand = 0 then Inl ZERO_INDEX
      else case getItem (parameterValues c) operand of
        Inl e \<Rightarrow> Inl e
      | Inr parameter \<Rightarrow> Inr (pushComponent parameter p))"

definition LOAD_DOCUMENT_symbol :: handler where
  "LOAD_DOCUMENT_symbol p c operand =
     (if operand = 0 then Inl ZERO_INDEX
      else case getItem (variableValues c) operand of
        Inl e \<Rightarrow> Inl e
      | Inr reference \<Rightarrow>
          (case fromReference reference of
             Inl e \<Rightarrow> Inl e
           | Inr (tag, version, digest) \<Rightarrow>
               (case (if digest = ''none'' then retrieveDraft (environment p) tag version
                      else retrieveDocument (environment p) (tag, version, digest)) of
                  Inl e \<Rightarrow> Inl e
                | Inr document \<Rightarrow> Inr (pushComponent document p))))"

text \<open>
  LOAD MESSAGE: when no message is received the status becomes WAITING and the address is
  decremented, "to make sure that the same instruction will be tried again".
\<close>

definition LOAD_MESSAGE_symbol :: handler where
  "LOAD_MESSAGE_symbol p c operand =
     (if operand = 0 then Inl ZERO_INDEX
      else case getItem (variableValues c) operand of
        Inl e \<Rightarrow> Inl e
      | Inr queue \<Rightarrow>
          (case receiveMessage (environment p) queue of
             (Some message, env) \<Rightarrow> Inr (pushComponent message (p\<lparr>environment := env\<rparr>))
           | (None, env) \<Rightarrow>
               Inr (p\<lparr>environment := env,
                      taskContext := (taskContext p)\<lparr>processorStatus := WAITING\<rparr>,
                      procedureContext := Context (c\<lparr>nextAddress := nextAddress c - 1\<rparr>)\<rparr>)))"

definition STORE_VARIABLE_symbol :: handler where
  "STORE_VARIABLE_symbol p c operand =
     (if operand = 0 then Inl ZERO_INDEX
      else case popComponent p of
        Inl e \<Rightarrow> Inl e
      | Inr (x, p1) \<Rightarrow>
          (case setItem (variableValues c) operand x of
             Inl e \<Rightarrow> Inl e
           | Inr variables \<Rightarrow>
               Inr (p1\<lparr>procedureContext := Context (c\<lparr>variableValues := variables\<rparr>)\<rparr>)))"

definition STORE_DRAFT_symbol :: handler where
  "STORE_DRAFT_symbol p c operand =
     (if operand = 0 then Inl ZERO_INDEX
      else case popComponent p of
        Inl e \<Rightarrow> Inl e
      | Inr (draft, p1) \<Rightarrow>
          (case getItem (variableValues c) operand of
             Inl e \<Rightarrow> Inl e
           | Inr reference \<Rightarrow>
               (case fromReference reference of
                  Inl e \<Rightarrow> Inl e
                | Inr (tag, version, digest) \<Rightarrow>
                    Inr (p1\<lparr>environment := saveDraft (environment p1) tag version draft\<rparr>))))"

definition STORE_DOCUMENT_symbol :: handler where
  "STORE_DOCUMENT_symbol p c operand =
     (if operand = 0 then Inl ZERO_INDEX
      else case popComponent p of
        Inl e \<Rightarrow> Inl e
      | Inr (document, p1) \<Rightarrow>
          (case getItem (variableValues c) operand of
             Inl e \<Rightarrow> Inl e
           | Inr reference \<Rightarrow>
               (case fromReference reference of
                  Inl e \<Rightarrow> Inl e
                | Inr (tag, version, digest) \<Rightarrow>
                    (case commitDocument (environment p1) tag version document of
                       ((tag', version', digest'), env) \<Rightarrow>
                         (case setItem (variableValues c) operand
                                 (Reference tag' version' digest') of
                            Inl e \<Rightarrow> Inl e
                          | Inr variables \<Rightarrow>
                              Inr (p1\<lparr>environment := env,
                                      procedureContext :=
                                        Context (c\<lparr>variableValues := variables\<rparr>)\<rparr>))))))"

definition STORE_MESSAGE_symbol :: handler where
  "STORE_MESSAGE_symbol p c operand =
     (if operand = 0 then Inl ZERO_INDEX
      else case popComponent p of
        Inl e \<Rightarrow> Inl e
      | Inr (message, p1) \<Rightarrow>
          (case getItem (variableValues c) operand of
             Inl e \<Rightarrow> Inl e
           | Inr queue \<Rightarrow>
               Inr (p1\<lparr>environment := queueMessage (environment p1) queue message\<rparr>)))"


text \<open>
  INVOKE: the parameters are popped one after the other into a list, and the intrinsic
  function at slot \<open>index\<close> of the table is applied to it.
\<close>

definition INVOKE_symbol :: "intrinsic list \<Rightarrow> handler" where
  "INVOKE_symbol intrinsicFunctions p c operand =
     (if operand = 0 then Inl ZERO_INDEX
      else case applyIntrinsic intrinsicFunctions operand [] of
        Inl e \<Rightarrow> Inl e
      | Inr r \<Rightarrow> Inr (pushComponent r p))"

definition INVOKE_symbol_WITH_PARAMETER :: "intrinsic list \<Rightarrow> handler" where
  "INVOKE_symbol_WITH_PARAMETER intrinsicFunctions p c operand =
     (if operand = 0 then Inl ZERO_INDEX
      else case popComponent p of
        Inl e \<Rightarrow> Inl e
      | Inr (x1, p1) \<Rightarrow>
          (case applyIntrinsic intrinsicFunctions operand [x1] of
             Inl e \<Rightarrow> Inl e
           | Inr r \<Rightarrow> Inr (pushComponent r p1)))"

definition INVOKE_symbol_WITH_2_PARAMETERS :: "intrinsic list \<Rightarrow> handler" where
  "INVOKE_symbol_WITH_2_PARAMETERS intrinsicFunctions p c operand =
     (if operand = 0 then Inl ZERO_INDEX
      else case popComponent p of
        Inl e \<Rightarrow> Inl e
      | Inr (x1, p1) \<Rightarrow>
          (case popComponent p1 of
             Inl e \<Rightarrow> Inl e
           | Inr (x2, p2) \<Rightarrow>
               (case applyIntrinsic intrinsicFunctions operand [x1, x2] of
                  Inl e \<Rightarrow> Inl e
                | Inr r \<Rightarrow> Inr (pushComponent r p2))))"

definition INVOKE_symbol_WITH_3_PARAMETERS :: "intrinsic list \<Rightarrow> handler" where
  "INVOKE_symbol_WITH_3_PARAMETERS intrinsicFunctions p c operand =
     (if operand = 0 then Inl ZERO_INDEX
      else case popComponent p of
        Inl e \<Rightarrow> Inl e
      | Inr (x1, p1) \<Rightarrow>
          (case popComponent p1 of
             Inl e \<Rightarrow> Inl e
           | Inr (x2, p2) \<Rightarrow>
               (case popComponent p2 of
                  Inl e \<Rightarrow> Inl e
                | Inr (x3, p3) \<Rightarrow>
                    (case applyIntrinsic intrinsicFunctions operand [x1, x2, x3] of
                       Inl e \<Rightarrow> Inl e
                     | Inr r \<Rightarrow> Inr (pushComponent r p3)))))"

text \<open>
  EXECUTE. The type document is retrieved with the reference that is popped, and the
  procedure is looked up in its \<open>$procedureDefinitions\<close>. The handlers then call
  \<open>processor.extractVariables\<close>, \<open>this.extractParameters\<close> or \<open>this.extractType\<close>;
  neither the processor object (\<open>environment\<close>, \<open>taskContext\<close>, \<open>procedureContext\<close>,
  \<open>step\<close>, \<open>run\<close>) nor the handler table, which is \<open>this\<close> in a handler, has such a
  method, so the call is a TypeError of the runtime and no handler pushes a new context.
\<close>

definition lookupProcedure :: "processor \<Rightarrow> component \<Rightarrow> int \<Rightarrow> error + component" where
  "lookupProcedure p reference index =
     (case fromReference reference of
        Inl e \<Rightarrow> Inl e
      | Inr citation \<Rightarrow>
          (case retrieveDocument (environment p) citation of
             Inl e \<Rightarrow> Inl e
           | Inr type \<Rightarrow>
               (case getValue type ''$procedureDefinitions'' of
                  Inl e \<Rightarrow> Inl e
                | Inr (Items procedureDefinitions) \<Rightarrow> getItem procedureDefinitions index
                | Inr _ \<Rightarrow> Inl (TypeError ''getItem is not a function''))))"

definition EXECUTE_symbol :: handler where
  "EXECUTE_symbol p c operand =
     (if operand = 0 then Inl ZERO_INDEX
      else case popComponent p of
        Inl e \<Rightarrow> Inl e
      | Inr (reference, p1) \<Rightarrow>
          (case lookupProcedure p1 reference operand of
             Inl e \<Rightarrow> Inl e
           | Inr association \<Rightarrow>
               Inl (TypeError ''processor.extractVariables is not a function'')))"

definition EXECUTE_symbol_WITH_PARAMETERS :: handler where
  "EXECUTE_symbol_WITH_PARAMETERS p c operand =
     (if operand = 0 then Inl ZERO_INDEX
      else case popComponent p of
        Inl e \<Rightarrow> Inl e
      | Inr (reference, p1) \<Rightarrow>
          (case lookupProcedure p1 reference operand of
             Inl e \<Rightarrow> Inl e
           | Inr association \<Rightarrow>
               (case popComponent p1 of
                  Inl e \<Rightarrow> Inl e
                | Inr (parameters, p2) \<Rightarrow>
                    Inl (TypeError ''this.extractParameters is not a function''))))"

definition EXECUTE_symbol_ON_TARGET :: handler where
  "EXECUTE_symbol_ON_TARGET p c operand =
     (if operand = 0 then Inl ZERO_INDEX
      else case popComponent p of
        Inl e \<Rightarrow> Inl e
      | Inr (target, p1) \<Rightarrow> Inl (TypeError ''this.extractType is not a function''))"

definition EXECUTE_symbol_ON_TARGET_WITH_PARAMETERS :: handler where
  "EXECUTE_symbol_ON_TARGET_WITH_PARAMETERS p c operand =
     (if operand = 0 then Inl ZERO_INDEX
      else case popComponent p of
        Inl e \<Rightarrow> Inl e
      | Inr (target, p1) \<Rightarrow> Inl (TypeError ''this.extractType is not a function''))"

text \<open>
  HANDLE EXCEPTION. Assigning \<open>nextAddress\<close> on a procedure document that was never
  imported sets a property that nothing reads. The inner loop pops every handler address
  and assigns each to \<open>nextAddress\<close>.
\<close>

fun setNextAddress :: "int \<Rightarrow> frame \<Rightarrow> frame" where
  "setNextAddress address (Context c) = Context (c\<lparr>nextAddress := address\<rparr>)"
| "setNextAddress address (Document d) = Document d"

fun popHandlers :: "int list \<Rightarrow> frame \<Rightarrow> frame" where
  "popHandlers [] f = f"
| "popHandlers (handlerAddress # rest) f = popHandlers rest (setNextAddress handlerAddress f)"

text \<open>
  The outer loop \<open>while (!procedureStack.isEmpty())\<close>, by recursion on the procedure stack;
  the first argument is always the procedure stack of the processor. Each round empties the
  handler stack, pops the exception and pops the top of the procedure stack.
\<close>

fun searchForHandler :: "procedure list \<Rightarrow> processor \<Rightarrow> error + processor" where
  "searchForHandler [] p = Inr p"
| "searchForHandler (topItem # rest) p =
     (let p1 = p\<lparr>procedureContext :=
                   popHandlers (handlerStack (taskContext p)) (procedureContext p),
                 taskContext := (taskContext p)\<lparr>handlerStack := []\<rparr>\<rparr>
      in case popComponent p1 of
           Inl e \<Rightarrow> Inl e
         | Inr (thrown, p2) \<Rightarrow>
             if rest = [] then
               searchForHandler rest
                 (p2\<lparr>taskContext := (taskContext p2)
                        \<lparr>procedureStack := rest,
                         exception := Some thrown,
                         processorStatus := DONE\<rparr>\<rparr>)
             else
               searchForHandler rest
                 (pushComponent thrown
                    (p2\<lparr>taskContext := (taskContext p2)\<lparr>procedureStack := rest\<rparr>,
                        procedureContext := Document (hd rest)\<rparr>)))"

definition HANDLE_EXCEPTION :: handler where
  "HANDLE_EXCEPTION p c operand =
     (if operand \<noteq> 0 then Inl NON_ZERO_OPERAND
      else searchForHandler (procedureStack (taskContext p)) p)"

definition HANDLE_RESULT :: handler where
  "HANDLE_RESULT p c operand =
     (if operand \<noteq> 0 then Inl NON_ZERO_OPERAND
      else case popComponent p of
        Inl e \<Rightarrow> Inl e
      | Inr (r, p1) \<Rightarrow>
          (case popItem (procedureStack (taskContext p1)) of
             Inl e \<Rightarrow> Inl e
           | Inr (topItem, rest) \<Rightarrow>
               if rest = [] then
                 Inr (p1\<lparr>taskContext := (taskContext p1)
                          \<lparr>procedureStack := rest,
                           result := Some r,
                           processorStatus := DONE\<rparr>\<rparr>)
               else
                 Inr (pushComponent r
                        (p1\<lparr>taskContext := (taskContext p1)\<lparr>procedureStack := rest\<rparr>,
                            procedureContext := Document (hd rest)\<rparr>))))"

definition instructionHandlers :: "intrinsic list \<Rightarrow> handler list" where
  "instructionHandlers intrinsicFunctions =
     [JUMP_TO_label,
      JUMP_TO_label_ON_NONE,
      JUMP_TO_label_ON_TRUE,
      JUMP_TO_label_ON_FALSE,
      PUSH_HANDLER_label,
      PUSH_ELEMENT_literal,
      PUSH_CODE_literal,
      UNIMPLEMENTED ''An unimplemented PUSH operation was attempted: 13'',
      POP_HANDLER,
      POP_COMPONENT,
      UNIMPLEMENTED ''An unimplemented POP operation was attempted: 22'',
      UNIMPLEMENTED ''An unimplemented POP operation was attempted: 23'',
      LOAD_VARIABLE_symbol,
      LOAD_PARAMETER_symbol,
      LOAD_DOCUMENT_symbol,
      LOAD_MESSAGE_symbol,
      STORE_VARIABLE_symbol,
      STORE_DRAFT_symbol,
      STORE_DOCUMENT_symbol,
      STORE_MESSAGE_symbol,
      INVOKE_symbol intrinsicFunctions,
      INVOKE_symbol_WITH_PARAMETER intrinsicFunctions,
      INVOKE_symbol_WITH_2_PARAMETERS intrinsicFunctions,
      INVOKE_symbol_WITH_3_PARAMETERS intrinsicFunctions,
      EXECUTE_symbol,
      EXECUTE_symbol_WITH_PARAMETERS,
      EXECUTE_symbol_ON_TARGET,
      EXECUTE_symbol_ON_TARGET_WITH_PARAMETERS,
      HANDLE_EXCEPTION,
      HANDLE_RESULT,
      UNIMPLEMENTED ''An unimplemented HANDLE operation was attempted: 72'',
      UNIMPLEMENTED ''An unimplemented HANDLE operation was attempted: 73'']"


section \<open>The processor loop (processor/VirtualMachine.js)\<close>

text \<open>
  The bitwise decoders read \<open>undefined\<close> as 0 and a word of the bytecode as itself.
\<close>

fun toInt32 :: "16 word option \<Rightarrow> number" where
  "toInt32 None = 0"
| "toInt32 (Some word) = ucast word"

text \<open>Reading a JavaScript array: an index outside the array reads \<open>undefined\<close>.\<close>

definition arrayItem :: "'a list \<Rightarrow> int \<Rightarrow> 'a option" where
  "arrayItem xs i = (if 0 \<le> i \<and> i < int (length xs) then Some (xs ! nat i) else None)"

text \<open>
  \<open>isRunnable\<close>. \<open>processor.procedureContext\<close> is always an object, so the guard
  \<open>processor.procedureContext &&\<close> holds; on a procedure document that was never imported,
  \<open>bytecodeInstructions\<close> is undefined and reading its \<open>length\<close> is a TypeError.
  \<open>bytecodeInstructions\<close> is the array of words that \<open>importProcedure\<close> stored, and
  \<open>nextAddress * 4\<close> is compared with its length.
\<close>

definition isRunnable :: "processor \<Rightarrow> error + bool" where
  "isRunnable p =
     (case procedureContext p of
        Document d \<Rightarrow> Inl (TypeError ''Cannot read property length of undefined'')
      | Context c \<Rightarrow>
          (let hasInstructions = nextAddress c * 4 \<le> int (length (bytecodeInstructions c));
               isActive = (processorStatus (taskContext p) = ACTIVE);
               hasTokens = (accountBalance (taskContext p) > 0)
           in Inr (hasInstructions \<and> isActive \<and> hasTokens)))"

definition fetchInstruction :: "processor \<Rightarrow> error + (processor \<times> bool)" where
  "fetchInstruction p =
     (case isRunnable p of
        Inl e \<Rightarrow> Inl e
      | Inr runnable \<Rightarrow>
          if runnable then
            (case procedureContext p of
               Context c \<Rightarrow>
                 Inr (p\<lparr>procedureContext :=
                          Context (c\<lparr>currentInstruction :=
                            arrayItem (bytecodeInstructions c) (nextAddress c - 1)\<rparr>)\<rparr>, True)
             | Document d \<Rightarrow> Inr (p, True))
          else Inr (p, False))"

text \<open>
  \<open>executeInstruction\<close>: decode, dispatch to the handler at slot
  \<open>(operation << 2) | modifier\<close>, then count the cycle, charge the account and increment
  \<open>nextAddress\<close> of whatever \<open>processor.procedureContext\<close> now is. (On a procedure document
  the increment sets a property that nothing reads, and \<open>currentInstruction\<close> is undefined:
  it decodes as the instruction 0, whose handler does nothing.)
\<close>

definition tick :: "processor \<Rightarrow> processor" where
  "tick p =
     p\<lparr>taskContext := (taskContext p)
          \<lparr>clockCycles := clockCycles (taskContext p) + 1,
           accountBalance := accountBalance (taskContext p) - 1\<rparr>\<rparr>"

fun incrementNextAddress :: "frame \<Rightarrow> frame" where
  "incrementNextAddress (Context c) = Context (c\<lparr>nextAddress := nextAddress c + 1\<rparr>)"
| "incrementNextAddress (Document d) = Document d"

definition advance :: "processor \<Rightarrow> processor" where
  "advance p = (tick p)\<lparr>procedureContext := incrementNextAddress (procedureContext p)\<rparr>"

definition executeInstruction :: "intrinsic list \<Rightarrow> processor \<Rightarrow> error + processor" where
  "executeInstruction intrinsicFunctions p =
     (case procedureContext p of
        Document d \<Rightarrow> Inr (advance p)
      | Context c \<Rightarrow>
          (let instruction = toInt32 (currentInstruction c);
               operation = decodeOperation instruction;
               modifier = decodeModifier instruction;
               operand = decodeOperand instruction;
               index = push_bit 2 operation OR modifier
           in case (instructionHandlers intrinsicFunctions ! unat index) p c (uint operand) of
                Inl e \<Rightarrow> Inl e
              | Inr p1 \<Rightarrow> Inr (advance p1)))"

definition step :: "intrinsic list \<Rightarrow> processor \<Rightarrow> error + (processor \<times> bool)" where
  "step intrinsicFunctions p =
     (case fetchInstruction p of
        Inl e \<Rightarrow> Inl e
      | Inr (p1, wasFetched) \<Rightarrow>
          if wasFetched then
            (case executeInstruction intrinsicFunctions p1 of
               Inl e \<Rightarrow> Inl e
             | Inr p2 \<Rightarrow> Inr (p2, wasFetched))
          else Inr (p1, wasFetched))"

text \<open>
  \<open>finalizeProcessing\<close>. The completion event reads \<open>taskContext.result.toSource\<close>,
  which is a TypeError when the task has no result.
\<close>

definition publishCompletionEvent :: "processor \<Rightarrow> error + processor" where
  "publishCompletionEvent p =
     (case result (taskContext p) of
        None \<Rightarrow> Inl (TypeError ''Cannot read property toSource of undefined'')
      | Some r \<Rightarrow>
          Inr (p\<lparr>environment := publishEvent (environment p)
                 (Completion (taskTag (taskContext p)) (accountTag (taskContext p))
                    (accountBalance (taskContext p)) (clockCycles (taskContext p)) r)\<rparr>))"

definition publishSuspensionEvent :: "processor \<Rightarrow> error + processor" where
  "publishSuspensionEvent p =
     Inr (p\<lparr>environment := publishEvent (environment p)
            (Suspension (exportTask (taskContext p)))\<rparr>)"

definition queueTaskContext :: "processor \<Rightarrow> error + processor" where
  "queueTaskContext p =
     Inr (p\<lparr>environment := (environment p)
            \<lparr>waitQueue := waitQueue (environment p) @ [exportTask (taskContext p)]\<rparr>\<rparr>)"

definition finalizeProcessing :: "processor \<Rightarrow> error + processor" where
  "finalizeProcessing p =
     (if processorStatus (taskContext p) = ACTIVE then publishSuspensionEvent p
      else if processorStatus (taskContext p) = WAITING then queueTaskContext p
      else if processorStatus (taskContext p) = DONE then publishCompletionEvent p
      else Inr p)"

text \<open>
  \<open>fromTask\<close>, given the environment that it builds from the notary and the repository:
  the task is imported and the top of its procedure stack is popped and imported as the
  current procedure context.
\<close>

definition fromTask :: "environment \<Rightarrow> task \<Rightarrow> error + processor" where
  "fromTask env document =
     (let context = importTask document
      in case popItem (procedureStack context) of
           Inl e \<Rightarrow> Inl e
         | Inr (topItem, rest) \<Rightarrow>
             Inr \<lparr>environment = env,
                  taskContext = context\<lparr>procedureStack := rest\<rparr>,
                  procedureContext = Context (importProcedure topItem)\<rparr>)"



section \<open>The earlier virtual machine (bvm/VirtualMachine.js)\<close>

text \<open>
  \<open>executeNextInstruction\<close> calls a handler as \<open>this.instructionHandlers[index](operand)\<close>,
  so inside a handler \<open>this\<close> is the handler table and not the machine. The table has no
  property \<open>procedureContext\<close>: the first read of \<open>this.procedureContext.components\<close> in a
  handler is a TypeError of the runtime. As dispatched, a handler therefore never reaches
  the machine: it returns nothing or raises.

  INVOKE applies the intrinsic function at slot \<open>index - 1\<close> of the table ("js zero based
  indexing") to no parameters and then reads \<open>this.procedureContext.components\<close> to push
  the result. The handlers with parameters and HANDLE EXCEPTION read
  \<open>this.procedureContext.components\<close> first of all (the handlers with parameters while they
  evaluate the argument of \<open>parameters.pushItem\<close>, before any intrinsic function is
  applied).
\<close>

definition bvm_INVOKE_symbol :: "intrinsic list \<Rightarrow> int \<Rightarrow> error + unit" where
  "bvm_INVOKE_symbol intrinsicFunctions operand =
     (case applyIntrinsic intrinsicFunctions (operand - 1) [] of
        Inl e \<Rightarrow> Inl e
      | Inr r \<Rightarrow> Inl (TypeError ''Cannot read property components of undefined''))"

definition bvm_INVOKE_symbol_WITH_PARAMETER :: "intrinsic list \<Rightarrow> int \<Rightarrow> error + unit" where
  "bvm_INVOKE_symbol_WITH_PARAMETER intrinsicFunctions operand =
     Inl (TypeError ''Cannot read property components of undefined'')"

definition bvm_INVOKE_symbol_WITH_2_PARAMETERS :: "intrinsic list \<Rightarrow> int \<Rightarrow> error + unit" where
  "bvm_INVOKE_symbol_WITH_2_PARAMETERS intrinsicFunctions operand =
     Inl (TypeError ''Cannot read property components of undefined'')"

definition bvm_INVOKE_symbol_WITH_3_PARAMETERS :: "intrinsic list \<Rightarrow> int \<Rightarrow> error + unit" where
  "bvm_INVOKE_symbol_WITH_3_PARAMETERS intrinsicFunctions operand =
     Inl (TypeError ''Cannot read property components of undefined'')"

definition bvm_HANDLE_EXCEPTION :: "int \<Rightarrow> error + unit" where
  "bvm_HANDLE_EXCEPTION operand =
     Inl (TypeError ''Cannot read property components of undefined'')"


section \<open>Properties of the instruction codec\<close>

lemma OPCODE_MASK_bits: "OPCODE_MASK = push_bit 13 (mask 3)"
  by (simp add: OPCODE_MASK_def mask_eq_exp_minus_1)

lemma MODCODE_MASK_bits: "MODCODE_MASK = push_bit 11 (mask 2)"
  by (simp add: MODCODE_MASK_def mask_eq_exp_minus_1)

lemma OPERAND_MASK_bits: "OPERAND_MASK = mask 11"
  by (simp add: OPERAND_MASK_def mask_eq_exp_minus_1)

lemma fields_in_range:
  fixes operation modifier operand :: number
  assumes "operation \<le> 7" and "modifier \<le> 3" and "operand \<le> 2047"
  shows "take_bit 3 operation = operation"
    and "take_bit 2 modifier = modifier"
    and "take_bit 11 operand = operand"
proof -
  have "operation < 2 ^ 3" and "modifier < 2 ^ 2" and "operand < 2 ^ 11"
    using assms by (simp_all add: word_less_nat_alt word_le_nat_alt)
  then show "take_bit 3 operation = operation"
    and "take_bit 2 modifier = modifier"
    and "take_bit 11 operand = operand"
    by (simp_all add: take_bit_eq_mask less_mask_eq)
qed

lemma decodeOperation_encode_bits:
  "decodeOperation (encodeInstruction (take_bit 3 operation) (take_bit 2 modifier)
     (take_bit 11 operand)) = take_bit 3 operation"
  unfolding decodeOperation_def encodeInstruction_def Let_def
    OPCODE_MASK_bits MODCODE_MASK_bits
  by (rule bit_word_eqI) (auto simp add: bit_simps)

lemma decodeModifier_encode_bits:
  "decodeModifier (encodeInstruction (take_bit 3 operation) (take_bit 2 modifier)
     (take_bit 11 operand)) = take_bit 2 modifier"
  unfolding decodeModifier_def encodeInstruction_def Let_def
    OPCODE_MASK_bits MODCODE_MASK_bits
  by (rule bit_word_eqI) (auto simp add: bit_simps)

lemma decodeOperand_encode_bits:
  "decodeOperand (encodeInstruction (take_bit 3 operation) (take_bit 2 modifier)
     (take_bit 11 operand)) = take_bit 11 operand"
  unfolding decodeOperand_def encodeInstruction_def Let_def
    OPCODE_MASK_bits MODCODE_MASK_bits OPERAND_MASK_bits
  by (rule bit_word_eqI) (auto simp add: bit_simps)

lemma decode_encode:
  assumes "operation \<le> 7" and "modifier \<le> 3" and "operand \<le> 2047"
  shows "decodeOperation (encodeInstruction operation modifier operand) = operation"
    and "decodeModifier (encodeInstruction operation modifier operand) = modifier"
    and "decodeOperand (encodeInstruction operation modifier operand) = operand"
  using decodeOperation_encode_bits [of operation modifier operand]
    decodeModifier_encode_bits [of operation modifier operand]
    decodeOperand_encode_bits [of operation modifier operand]
    fields_in_range [OF assms]
  by simp_all

section \<open>The account of a task\<close>

text \<open>
  The account balance and the clock cycles of a processor. No handler changes them: they
  change only at the end of \<open>executeInstruction\<close>.
\<close>

definition account :: "processor \<Rightarrow> int \<times> int" where
  "account p = (accountBalance (taskContext p), clockCycles (taskContext p))"

lemma account_simps [simp]:
  "account (pushComponent x p) = account p"
  "account (p\<lparr>procedureContext := f\<rparr>) = account p"
  "account (p\<lparr>environment := e\<rparr>) = account p"
  "account (p\<lparr>taskContext := (taskContext p)\<lparr>componentStack := cs\<rparr>\<rparr>) = account p"
  "account (p\<lparr>taskContext := (taskContext p)\<lparr>handlerStack := hs\<rparr>\<rparr>) = account p"
  "account (p\<lparr>taskContext := (taskContext p)\<lparr>procedureStack := ps\<rparr>\<rparr>) = account p"
  "account (p\<lparr>taskContext := (taskContext p)\<lparr>processorStatus := s\<rparr>\<rparr>) = account p"
  by (simp_all add: account_def pushComponent_def)

lemma popComponent_account: "popComponent p = Inr (x, p') \<Longrightarrow> account p' = account p"
  by (auto simp: popComponent_def popItem_def split: list.splits)

lemma JUMP_TO_label_account: "JUMP_TO_label p c x = Inr p' \<Longrightarrow> account p' = account p"
  by (auto simp: JUMP_TO_label_def split: if_splits)

lemma JUMP_TO_label_ON_account: "JUMP_TO_label_ON t p c x = Inr p' \<Longrightarrow> account p' = account p"
  by (auto simp: JUMP_TO_label_ON_def split: if_splits sum.splits dest!: popComponent_account)

lemma PUSH_HANDLER_label_account: "PUSH_HANDLER_label p c x = Inr p' \<Longrightarrow> account p' = account p"
  by (auto simp: PUSH_HANDLER_label_def split: if_splits)

lemma PUSH_ELEMENT_literal_account: "PUSH_ELEMENT_literal p c x = Inr p' \<Longrightarrow> account p' = account p"
  by (auto simp: PUSH_ELEMENT_literal_def split: if_splits sum.splits)

lemma PUSH_CODE_literal_account: "PUSH_CODE_literal p c x = Inr p' \<Longrightarrow> account p' = account p"
  by (auto simp: PUSH_CODE_literal_def split: if_splits sum.splits)

lemma UNIMPLEMENTED_account: "UNIMPLEMENTED m p c x = Inr p' \<Longrightarrow> account p' = account p"
  by (simp add: UNIMPLEMENTED_def)

lemma POP_HANDLER_account: "POP_HANDLER p c x = Inr p' \<Longrightarrow> account p' = account p"
  by (auto simp: POP_HANDLER_def popItem_def split: if_splits sum.splits list.splits)

lemma POP_COMPONENT_account: "POP_COMPONENT p c x = Inr p' \<Longrightarrow> account p' = account p"
  by (auto simp: POP_COMPONENT_def split: if_splits sum.splits dest: popComponent_account)

lemma LOAD_VARIABLE_symbol_account: "LOAD_VARIABLE_symbol p c x = Inr p' \<Longrightarrow> account p' = account p"
  by (auto simp: LOAD_VARIABLE_symbol_def split: if_splits sum.splits)

lemma LOAD_PARAMETER_symbol_account: "LOAD_PARAMETER_symbol p c x = Inr p' \<Longrightarrow> account p' = account p"
  by (auto simp: LOAD_PARAMETER_symbol_def split: if_splits sum.splits)

lemma LOAD_DOCUMENT_symbol_account: "LOAD_DOCUMENT_symbol p c x = Inr p' \<Longrightarrow> account p' = account p"
  by (auto simp: LOAD_DOCUMENT_symbol_def split: if_splits sum.splits prod.splits)

lemma LOAD_MESSAGE_symbol_account: "LOAD_MESSAGE_symbol p c x = Inr p' \<Longrightarrow> account p' = account p"
  by (auto simp: LOAD_MESSAGE_symbol_def account_def pushComponent_def split: if_splits sum.splits prod.splits option.splits)

lemma STORE_VARIABLE_symbol_account: "STORE_VARIABLE_symbol p c x = Inr p' \<Longrightarrow> account p' = account p"
  by (auto simp: STORE_VARIABLE_symbol_def split: if_splits sum.splits prod.splits dest: popComponent_account)

lemma STORE_DRAFT_symbol_account: "STORE_DRAFT_symbol p c x = Inr p' \<Longrightarrow> account p' = account p"
  by (auto simp: STORE_DRAFT_symbol_def split: if_splits sum.splits prod.splits dest: popComponent_account)

lemma STORE_DOCUMENT_symbol_account: "STORE_DOCUMENT_symbol p c x = Inr p' \<Longrightarrow> account p' = account p"
  by (auto simp: STORE_DOCUMENT_symbol_def account_def split: if_splits sum.splits prod.splits dest!: popComponent_account)

lemma STORE_MESSAGE_symbol_account: "STORE_MESSAGE_symbol p c x = Inr p' \<Longrightarrow> account p' = account p"
  by (auto simp: STORE_MESSAGE_symbol_def split: if_splits sum.splits prod.splits dest: popComponent_account)

lemma INVOKE_symbol_account: "INVOKE_symbol fs p c x = Inr p' \<Longrightarrow> account p' = account p"
  by (auto simp: INVOKE_symbol_def split: if_splits sum.splits prod.splits)

lemma INVOKE_symbol_WITH_PARAMETER_account: "INVOKE_symbol_WITH_PARAMETER fs p c x = Inr p' \<Longrightarrow> account p' = account p"
  by (auto simp: INVOKE_symbol_WITH_PARAMETER_def split: if_splits sum.splits prod.splits dest: popComponent_account)

lemma INVOKE_symbol_WITH_2_PARAMETERS_account: "INVOKE_symbol_WITH_2_PARAMETERS fs p c x = Inr p' \<Longrightarrow> account p' = account p"
  by (auto simp: INVOKE_symbol_WITH_2_PARAMETERS_def split: if_splits sum.splits prod.splits dest!: popComponent_account)

lemma INVOKE_symbol_WITH_3_PARAMETERS_account: "INVOKE_symbol_WITH_3_PARAMETERS fs p c x = Inr p' \<Longrightarrow> account p' = account p"
  by (auto simp: INVOKE_symbol_WITH_3_PARAMETERS_def split: if_splits sum.splits prod.splits dest!: popComponent_account)

lemma EXECUTE_symbol_account: "EXECUTE_symbol p c x = Inr p' \<Longrightarrow> account p' = account p"
  by (auto simp: EXECUTE_symbol_def split: if_splits sum.splits prod.splits)

lemma EXECUTE_symbol_WITH_PARAMETERS_account: "EXECUTE_symbol_WITH_PARAMETERS p c x = Inr p' \<Longrightarrow> account p' = account p"
  by (auto simp: EXECUTE_symbol_WITH_PARAMETERS_def split: if_splits sum.splits prod.splits)

lemma EXECUTE_symbol_ON_TARGET_account: "EXECUTE_symbol_ON_TARGET p c x = Inr p' \<Longrightarrow> account p' = account p"
  by (auto simp: EXECUTE_symbol_ON_TARGET_def split: if_splits sum.splits prod.splits)

lemma EXECUTE_symbol_ON_TARGET_WITH_PARAMETERS_account: "EXECUTE_symbol_ON_TARGET_WITH_PARAMETERS p c x = Inr p' \<Longrightarrow> account p' = account p"
  by (auto simp: EXECUTE_symbol_ON_TARGET_WITH_PARAMETERS_def split: if_splits sum.splits prod.splits)

lemma searchForHandler_account:
  "searchForHandler ps p = Inr p' \<Longrightarrow> account p' = account p"
proof (induction ps arbitrary: p)
  case Nil
  then show ?case by simp
next
  case (Cons a ps)
  show ?case
    using Cons.prems
    by (auto simp: Let_def account_def pushComponent_def popComponent_def popItem_def
        split: sum.splits prod.splits if_splits list.splits
        dest!: Cons.IH)
qed

lemma HANDLE_EXCEPTION_account: "HANDLE_EXCEPTION p c x = Inr p' \<Longrightarrow> account p' = account p"
  by (auto simp: HANDLE_EXCEPTION_def split: if_splits dest: searchForHandler_account)

lemma HANDLE_RESULT_account: "HANDLE_RESULT p c x = Inr p' \<Longrightarrow> account p' = account p"
  by (auto simp: HANDLE_RESULT_def account_def pushComponent_def popComponent_def popItem_def split: if_splits sum.splits prod.splits list.splits)

lemmas handlers_account =
  JUMP_TO_label_account JUMP_TO_label_ON_account PUSH_HANDLER_label_account
  PUSH_ELEMENT_literal_account PUSH_CODE_literal_account UNIMPLEMENTED_account
  POP_HANDLER_account POP_COMPONENT_account LOAD_VARIABLE_symbol_account
  LOAD_PARAMETER_symbol_account LOAD_DOCUMENT_symbol_account LOAD_MESSAGE_symbol_account
  STORE_VARIABLE_symbol_account STORE_DRAFT_symbol_account STORE_DOCUMENT_symbol_account
  STORE_MESSAGE_symbol_account INVOKE_symbol_account INVOKE_symbol_WITH_PARAMETER_account
  INVOKE_symbol_WITH_2_PARAMETERS_account INVOKE_symbol_WITH_3_PARAMETERS_account
  EXECUTE_symbol_account EXECUTE_symbol_WITH_PARAMETERS_account EXECUTE_symbol_ON_TARGET_account
  EXECUTE_symbol_ON_TARGET_WITH_PARAMETERS_account HANDLE_EXCEPTION_account HANDLE_RESULT_account

lemma instructionHandlers_account:
  assumes "h \<in> set (instructionHandlers fs)" and "h p c x = Inr p'"
  shows "account p' = account p"
  using assms unfolding instructionHandlers_def
    JUMP_TO_label_ON_NONE_def JUMP_TO_label_ON_TRUE_def JUMP_TO_label_ON_FALSE_def
  by (auto dest: handlers_account)

lemma index_bound:
  "unat (push_bit 2 (decodeOperation i) OR decodeModifier i) < 32"
proof -
  let ?w = "push_bit 2 (decodeOperation i) OR decodeModifier i"
  have "?w = take_bit 5 ?w"
    unfolding decodeOperation_def decodeModifier_def OPCODE_MASK_bits MODCODE_MASK_bits
    by (rule bit_word_eqI) (auto simp add: bit_simps)
  then have "unat ?w = unat (take_bit 5 ?w)" by simp
  also have "\<dots> = take_bit 5 (unat ?w)" by (rule unsigned_take_bit_eq)
  also have "\<dots> < 2 ^ 5" by (rule take_bit_nat_less_exp)
  finally show ?thesis by simp
qed

lemma executeInstruction_account:
  assumes "executeInstruction fs p = Inr p'"
  shows "accountBalance (taskContext p') = accountBalance (taskContext p) - 1"
    and "clockCycles (taskContext p') = clockCycles (taskContext p) + 1"
proof -
  have adv: "account (advance q) = (fst (account q) - 1, snd (account q) + 1)" for q
    by (simp add: account_def advance_def tick_def)
  have "account p' = (fst (account p) - 1, snd (account p) + 1)"
  proof (cases "procedureContext p")
    case (Document d)
    with assms show ?thesis by (auto simp: executeInstruction_def adv)
  next
    case (Context c)
    let ?i = "toInt32 (currentInstruction c)"
    let ?h = "instructionHandlers fs ! unat (push_bit 2 (decodeOperation ?i) OR decodeModifier ?i)"
    have len: "length (instructionHandlers fs) = 32" by (simp add: instructionHandlers_def)
    have mem: "?h \<in> set (instructionHandlers fs)"
      using index_bound [of ?i] len by (simp add: nth_mem)
    from assms Context obtain p1 where h: "?h p c (uint (decodeOperand ?i)) = Inr p1" and p': "p' = advance p1"
      by (auto simp: executeInstruction_def Let_def split: sum.splits)
    from instructionHandlers_account [OF mem h] p' show ?thesis by (simp add: adv)
  qed
  then show "accountBalance (taskContext p') = accountBalance (taskContext p) - 1"
    and "clockCycles (taskContext p') = clockCycles (taskContext p) + 1"
    by (simp_all add: account_def)
qed


section \<open>The loop of \<open>run\<close>\<close>

text \<open>
  \<open>run\<close> is \<open>while (fetchInstruction(this)) executeInstruction(this)\<close> followed by
  \<open>finalizeProcessing\<close>. Each round needs a positive balance and lowers it by one, so the
  loop terminates.
\<close>

lemma fetchInstruction_True:
  assumes "fetchInstruction p = Inr (p1, True)"
  shows "accountBalance (taskContext p1) = accountBalance (taskContext p)"
    and "0 < accountBalance (taskContext p)"
  using assms
  by (auto simp: fetchInstruction_def isRunnable_def Let_def split: sum.splits frame.splits if_splits)

function runWhile :: "intrinsic list \<Rightarrow> processor \<Rightarrow> error + processor" where
  "runWhile intrinsicFunctions p =
     (case fetchInstruction p of
        Inl e \<Rightarrow> Inl e
      | Inr (p1, wasFetched) \<Rightarrow>
          if wasFetched then
            (case executeInstruction intrinsicFunctions p1 of
               Inl e \<Rightarrow> Inl e
             | Inr p2 \<Rightarrow> runWhile intrinsicFunctions p2)
          else Inr p1)"
  by pat_completeness auto
termination
proof (relation "measure (\<lambda>(intrinsicFunctions, p). nat (accountBalance (taskContext p)))")
  show "wf (measure (\<lambda>(intrinsicFunctions, p). nat (accountBalance (taskContext p))))"
    by simp
next
  fix intrinsicFunctions :: "intrinsic list" and p x2 p1 wasFetched p2
  assume "fetchInstruction p = Inr x2" and "(p1, wasFetched) = x2" and "wasFetched"
    and "executeInstruction intrinsicFunctions p1 = Inr p2"
  then have f: "fetchInstruction p = Inr (p1, True)" by simp
  from fetchInstruction_True [OF f]
    executeInstruction_account(1) [OF \<open>executeInstruction intrinsicFunctions p1 = Inr p2\<close>]
  show "((intrinsicFunctions, p2), (intrinsicFunctions, p))
      \<in> measure (\<lambda>(intrinsicFunctions, p). nat (accountBalance (taskContext p)))"
    by simp
qed

declare runWhile.simps [simp del]

definition run :: "intrinsic list \<Rightarrow> processor \<Rightarrow> error + processor" where
  "run intrinsicFunctions p =
     (case runWhile intrinsicFunctions p of
        Inl e \<Rightarrow> Inl e
      | Inr p1 \<Rightarrow> finalizeProcessing p1)"



section \<open>The classification table of the specification\<close>

text \<open>
  This definition follows the words of the specification, not the source: an instruction
  is well formed when it is a JUMP with a positive operand (any modifier) or with operand 0
  and modifier 0 (SKIP); a PUSH HANDLER, ELEMENT or CODE with a positive operand; a POP
  HANDLER or COMPONENT with operand 0; a LOAD, STORE, INVOKE or EXECUTE with an operand of
  at least 1; or a HANDLE EXCEPTION or RESULT with operand 0.
\<close>

definition classificationTable :: "number \<Rightarrow> number \<Rightarrow> number \<Rightarrow> bool" where
  "classificationTable operation modifier operand =
     ((operation = JUMP \<and> (operand > 0 \<or> (operand = 0 \<and> modifier = 0)))
      \<or> (operation = PUSH \<and> (modifier = HANDLER \<or> modifier = ELEMENT \<or> modifier = CODE)
            \<and> operand > 0)
      \<or> (operation = POP \<and> (modifier = HANDLER \<or> modifier = COMPONENT) \<and> operand = 0)
      \<or> ((operation = LOAD \<or> operation = STORE \<or> operation = INVOKE \<or> operation = EXECUTE)
            \<and> operand \<ge> 1)
      \<or> (operation = HANDLE \<and> (modifier = EXCEPTION \<or> modifier = RESULT) \<and> operand = 0))"


section \<open>Example tasks\<close>

text \<open>
  The inputs of the scenarios: a repository with no documents and no messages, a procedure
  document with given bytes, literals and variables that starts at address 1, and an active
  task with a balance of 10 and given stacks. \<open>exampleProcessor\<close> is the processor that
  \<open>fromTask\<close> builds for such a task once its top procedure is imported.
\<close>

definition emptyRepository :: environment where
  "emptyRepository =
     \<lparr>documents = Map.empty, drafts = Map.empty, queues = (\<lambda>queue. []), waitQueue = [],
      events = [], notarize = (\<lambda>document. ''none'')\<rparr>"

definition exampleProcedure :: "8 word list \<Rightarrow> component list \<Rightarrow> component list \<Rightarrow> procedure" where
  "exampleProcedure bytes literals variables =
     \<lparr>doc_targetComponent = NONE, doc_typeReference = NONE,
      doc_procedureName = Symbol ''$main'', doc_parameterValues = [],
      doc_literalValues = literals, doc_variableValues = variables,
      doc_bytecodeInstructions = bytes, doc_nextAddress = 1\<rparr>"

definition exampleTask :: "component list \<Rightarrow> int list \<Rightarrow> procedure list \<Rightarrow> task" where
  "exampleTask stack handlerAddresses frames =
     \<lparr>doc_taskTag = Symbol ''$task'', doc_accountTag = Symbol ''$account'',
      doc_accountBalance = 10, doc_processorStatus = ACTIVE, doc_clockCycles = 0,
      doc_componentStack = stack, doc_handlerStack = handlerAddresses,
      doc_procedureStack = frames\<rparr>"

definition exampleProcessor :: "component list \<Rightarrow> int list \<Rightarrow> procedure list \<Rightarrow> procedureContext \<Rightarrow> processor" where
  "exampleProcessor stack handlerAddresses frames context =
     \<lparr>environment = emptyRepository,
      taskContext = (importTask (exampleTask stack handlerAddresses frames)),
      procedureContext = Context context\<rparr>"

text \<open>
  Two tables of two intrinsic functions: in the first, slot 0 raises and slot 1 returns; in
  the second, slot 0 returns and slot 1 raises.
\<close>

definition exampleIntrinsics :: "intrinsic list" where
  "exampleIntrinsics =
     [(\<lambda>parameters. Inl (IntrinsicFailure (Symbol ''$first''))),
      (\<lambda>parameters. Inr (Symbol ''$second''))]"

definition failingIntrinsics :: "intrinsic list" where
  "failingIntrinsics =
     [(\<lambda>parameters. Inr (Symbol ''$first'')),
      (\<lambda>parameters. Inl (IntrinsicFailure (Symbol ''$second'')))]"

text \<open>
  What a scenario observes of a processor, and a task that is started with \<open>fromTask\<close>
  and then stepped once or run.
\<close>

record observation =
  status_of :: string
  balance_of :: int
  cycles_of :: int
  components_of :: "component list"
  handlers_of :: "int list"
  frames_of :: nat
  result_of :: "component option"
  exception_of :: "component option"
  nextAddress_of :: "int option"

definition observe :: "processor \<Rightarrow> observation" where
  "observe p =
     \<lparr>status_of = processorStatus (taskContext p),
      balance_of = accountBalance (taskContext p),
      cycles_of = clockCycles (taskContext p),
      components_of = componentStack (taskContext p),
      handlers_of = handlerStack (taskContext p),
      frames_of = length (procedureStack (taskContext p)),
      result_of = result (taskContext p),
      exception_of = exception (taskContext p),
      nextAddress_of =
        (case procedureContext p of Context c \<Rightarrow> Some (nextAddress c) | Document d \<Rightarrow> None)\<rparr>"

definition stepTask :: "intrinsic list \<Rightarrow> environment \<Rightarrow> task \<Rightarrow> error + observation" where
  "stepTask intrinsicFunctions env document =
     (case fromTask env document of
        Inl e \<Rightarrow> Inl e
      | Inr p \<Rightarrow>
          (case step intrinsicFunctions p of Inl e \<Rightarrow> Inl e | Inr (p1, wasFetched) \<Rightarrow> Inr (observe p1)))"

definition runTask :: "intrinsic list \<Rightarrow> environment \<Rightarrow> task \<Rightarrow> error + observation" where
  "runTask intrinsicFunctions env document =
     (case fromTask env document of
        Inl e \<Rightarrow> Inl e
      | Inr p \<Rightarrow>
          (case run intrinsicFunctions p of Inl e \<Rightarrow> Inl e | Inr p1 \<Rightarrow> Inr (observe p1)))"

text \<open>The component stack that an instruction of the processor leaves.\<close>

definition processorComponents :: "error + processor \<Rightarrow> error + component list" where
  "processorComponents outcome = map_sum id (\<lambda>p. componentStack (taskContext p)) outcome"

text \<open>
  Modelled from the spec: the catalog that \<open>Catalog.fromCollection\<close> (package
  \<open>bali-primitive-types\<close>, not part of the sources) builds from a task context, read back as
  the task document that \<open>importTask\<close> reads: exporting inverts the mapping, so each field
  of the task context is found under its key.
\<close>

fun asTask :: "exportedTask \<Rightarrow> task" where
  "asTask (FromCollection context) =
     \<lparr>doc_taskTag = taskTag context,
      doc_accountTag = accountTag context,
      doc_accountBalance = accountBalance context,
      doc_processorStatus = processorStatus context,
      doc_clockCycles = clockCycles context,
      doc_componentStack = componentStack context,
      doc_handlerStack = handlerStack context,
      doc_procedureStack = procedureStack context\<rparr>"

text \<open>
  The task documents of the suspension events that have been published; a task that is
  started with \<open>fromTask\<close> and run, observed by the task documents it has published; and a
  published task document that is started again with \<open>fromTask\<close>.
\<close>

fun suspensions :: "event list \<Rightarrow> exportedTask list" where
  "suspensions [] = []"
| "suspensions (Suspension document # rest) = document # suspensions rest"
| "suspensions (Completion t a b n r # rest) = suspensions rest"

definition suspendTask :: "intrinsic list \<Rightarrow> environment \<Rightarrow> task \<Rightarrow> error + task list" where
  "suspendTask intrinsicFunctions env document =
     (case fromTask env document of
        Inl e \<Rightarrow> Inl e
      | Inr p \<Rightarrow>
          (case run intrinsicFunctions p of
             Inl e \<Rightarrow> Inl e
           | Inr p1 \<Rightarrow> Inr (map asTask (suspensions (events (environment p1))))))"

definition resumeTask :: "environment \<Rightarrow> task \<Rightarrow> error + observation" where
  "resumeTask env document = map_sum id observe (fromTask env document)"

text \<open>
  A context whose current instruction is LOAD MESSAGE 1 (word 0x7801) and whose variable 1
  refers to a queue.
\<close>

definition waitingContext :: procedureContext where
  "waitingContext =
     (importProcedure (exampleProcedure [0x78, 0x01, 0, 0, 0, 0, 0, 0] []
        [Reference ''queue'' ''v1'' ''none'']))\<lparr>currentInstruction := Some 0x7801\<rparr>"



section \<open>Properties of the processor\<close>

lemma base16ToBytecode_length: "length (base16ToBytecode bytes) = (length bytes + 1) div 2"
  by (induction bytes rule: base16ToBytecode.induct) simp_all

lemma searchForHandler_ends_task:
  assumes "frames \<noteq> []" and "searchForHandler frames p = Inr p'"
  shows "processorStatus (taskContext p') = DONE \<and> procedureStack (taskContext p') = []
       \<and> handlerStack (taskContext p') = []"
  using assms
proof (induction frames arbitrary: p)
  case Nil
  then show ?case by simp
next
  case (Cons topItem rest)
  show ?case
  proof (cases "rest = []")
    case True
    with Cons.prems(2) show ?thesis
      by (auto simp: Let_def popComponent_def popItem_def split: sum.splits prod.splits list.splits)
  next
    case False
    with Cons.prems(2) obtain p2 where "searchForHandler rest p2 = Inr p'"
      by (auto simp: Let_def split: sum.splits prod.splits)
    with Cons.IH [OF False] show ?thesis by blast
  qed
qed

lemma exportProcedure_raises:
  "exportProcedure context = Inl (TypeError ''bytecode.bytecodeToBase16 is not a function'')"
  by (simp add: exportProcedure_def BytecodeUtilities_exports_def)

lemma fromTask_example:
  "fromTask emptyRepository (exampleTask stack handlerAddresses (topItem # frames))
     = Inr (exampleProcessor stack handlerAddresses frames (importProcedure topItem))"
  by (simp add: fromTask_def exampleProcessor_def popItem_def importTask_def exampleTask_def)

lemma fetchInstruction_False:
  assumes "fetchInstruction p = Inr (p1, False)"
  shows "p1 = p"
  using assms
  by (auto simp: fetchInstruction_def split: sum.splits frame.splits if_splits)

lemma fetchInstruction_no_tokens:
  assumes "accountBalance (taskContext p) \<le> 0" and "procedureContext p = Context c"
  shows "fetchInstruction p = Inr (p, False)"
  using assms by (simp add: fetchInstruction_def isRunnable_def)

lemma step_balance:
  assumes "0 \<le> accountBalance (taskContext p)" and "step fs p = Inr (q, fetched)"
  shows "0 \<le> accountBalance (taskContext q)"
proof (cases fetched)
  case True
  with assms(2) obtain p1 where f: "fetchInstruction p = Inr (p1, True)"
    and e: "executeInstruction fs p1 = Inr q"
    by (auto simp: step_def split: sum.splits prod.splits if_splits)
  from fetchInstruction_True [OF f] executeInstruction_account(1) [OF e]
  show ?thesis by simp
next
  case False
  with assms(2) have "fetchInstruction p = Inr (q, False)"
    by (auto simp: step_def split: sum.splits prod.splits if_splits)
  then have "q = p" by (rule fetchInstruction_False)
  with assms(1) show ?thesis by simp
qed

lemma runWhile_balance:
  assumes "0 \<le> accountBalance (taskContext p)" and "runWhile fs p = Inr r"
  shows "0 \<le> accountBalance (taskContext r)"
  using assms
proof (induction fs p rule: runWhile.induct)
  case (1 fs p)
  from "1.prems"(2) obtain p1 fetched where f: "fetchInstruction p = Inr (p1, fetched)"
    by (subst (asm) runWhile.simps) (auto split: sum.splits prod.splits)
  show ?case
  proof (cases fetched)
    case True
    with f "1.prems"(2) obtain p2 where e: "executeInstruction fs p1 = Inr p2"
      and r: "runWhile fs p2 = Inr r"
      by (subst (asm) runWhile.simps) (auto split: sum.splits)
    from f True have f': "fetchInstruction p = Inr (p1, True)" by simp
    from fetchInstruction_True [OF f'] executeInstruction_account(1) [OF e]
    have "0 \<le> accountBalance (taskContext p2)" by simp
    from "1.IH" [OF f refl True e this r] show ?thesis .
  next
    case False
    with f "1.prems"(2) have "r = p1"
      by (subst (asm) runWhile.simps) simp
    moreover from f False have "p1 = p" by (auto dest: fetchInstruction_False)
    ultimately show ?thesis using "1.prems"(1) by simp
  qed
qed

lemma runWhile_no_tokens:
  assumes "accountBalance (taskContext p) \<le> 0" and "procedureContext p = Context c"
  shows "runWhile fs p = Inr p"
  by (subst runWhile.simps) (simp add: fetchInstruction_no_tokens [OF assms])


section \<open>The claims\<close>

text \<open>
  Claim C7. For every operation in [0,7], modifier in [0,3] and operand in [0,2047], the
  three decoders applied to the encoded word return the operation, the modifier and the
  operand that were encoded.
\<close>

theorem encode_then_decode_is_identity:
  assumes "operation \<le> 7" and "modifier \<le> 3" and "operand \<le> 2047"
  shows "decodeOperation (encodeInstruction operation modifier operand) = operation
       \<and> decodeModifier (encodeInstruction operation modifier operand) = modifier
       \<and> decodeOperand (encodeInstruction operation modifier operand) = operand"
  using decode_encode [OF assms] by simp

theorem encode_then_decode_is_identity_witness:
  "(5 :: number) \<le> 7 \<and> (2 :: number) \<le> 3 \<and> (1000 :: number) \<le> 2047
   \<and> decodeOperation (encodeInstruction 5 2 1000) = 5
   \<and> decodeModifier (encodeInstruction 5 2 1000) = 2
   \<and> decodeOperand (encodeInstruction 5 2 1000) = 1000"
  using encode_then_decode_is_identity [of 5 2 1000] by simp

text \<open>
  Claim C10. The encoder masks the shifted operation and modifier but ors the operand in
  unmasked: it neither rejects nor truncates the operand 2048 (the word returned for
  operation 0, modifier 0 is 2048 itself), and the decoders then read modifier 1 where
  modifier 0 was encoded; likewise the operand 8192 is read back as operation 1.
\<close>

theorem encode_out_of_range_operand_spills:
  "encodeInstruction 0 0 2048 = 2048
   \<and> decodeModifier (encodeInstruction 0 0 2048) = 1
   \<and> decodeOperand (encodeInstruction 0 0 2048) = 0
   \<and> decodeOperation (encodeInstruction 0 0 8192) = 1"
  by (simp add: encodeInstruction_def decodeModifier_def decodeOperand_def
      decodeOperation_def OPCODE_MASK_def MODCODE_MASK_def OPERAND_MASK_def)

text \<open>
  Claim C8. For every operation in [0,7], modifier in [0,3] and operand in [0,2047],
  \<open>instructionIsValid\<close> accepts the encoded word exactly when the triple matches the
  classification table of the specification.
\<close>

theorem instructionIsValid_matches_classification:
  assumes "operation \<le> 7" and "modifier \<le> 3" and "operand \<le> 2047"
  shows "instructionIsValid (encodeInstruction operation modifier operand)
       = classificationTable operation modifier operand"
proof -
  have positive: "(1 \<le> operand) = (0 < operand)"
    by (simp add: word_le_nat_alt word_less_nat_alt) arith
  show ?thesis
    unfolding instructionIsValid_def Let_def decode_encode [OF assms]
      classificationTable_def positive
    by (auto simp: types_defs word_greater_zero_iff)
qed

theorem instructionIsValid_matches_classification_witness:
  "(1 :: number) \<le> 7 \<and> (0 :: number) \<le> 3 \<and> (5 :: number) \<le> 2047
   \<and> instructionIsValid (encodeInstruction 1 0 5) = classificationTable 1 0 5
   \<and> classificationTable 1 0 5"
  using instructionIsValid_matches_classification [of 1 0 5]
  by (simp add: classificationTable_def types_defs)

text \<open>
  Claim C4. When the current instruction is LOAD MESSAGE with an index that names a
  variable of the current context, and the queue that the variable refers to is empty, then
  executing the instruction succeeds, leaves the processor status WAITING and leaves
  \<open>nextAddress\<close> of the current context at the value it had before the instruction.
\<close>

theorem LOAD_MESSAGE_on_empty_queue_waits:
  assumes "procedureContext p = Context c"
    and "currentInstruction c = Some word"
    and "ucast word = encodeInstruction LOAD MESSAGE index"
    and "1 \<le> index" and "index \<le> 2047"
    and "getItem (variableValues c) (uint index) = Inr queue"
    and "queues (environment p) queue = []"
  shows "\<exists>p' c'. executeInstruction intrinsicFunctions p = Inr p'
          \<and> processorStatus (taskContext p') = WAITING
          \<and> procedureContext p' = Context c'
          \<and> nextAddress c' = nextAddress c"
proof -
  have ops: "LOAD \<le> 7" "MESSAGE \<le> 3" by (simp_all add: types_defs)
  note fields = decode_encode [OF ops assms(5)]
  have slot: "unat (push_bit 2 LOAD OR MESSAGE) = 15" by (simp add: types_defs)
  have entry: "instructionHandlers intrinsicFunctions ! 15 = LOAD_MESSAGE_symbol"
    by (simp add: instructionHandlers_def)
  have nonzero: "uint index \<noteq> 0" using assms(4) by (auto simp: word_le_def)
  have received: "receiveMessage (environment p) queue = (None, environment p)"
    using assms(7) by (simp add: receiveMessage_def)
  show ?thesis
    using assms(1,2,6) nonzero received
    by (simp add: executeInstruction_def Let_def assms(3) fields slot entry
        LOAD_MESSAGE_symbol_def advance_def tick_def)
qed

theorem LOAD_MESSAGE_on_empty_queue_waits_witness:
  "\<exists>p' c'. executeInstruction [] (exampleProcessor [] [] [] waitingContext) = Inr p'
      \<and> processorStatus (taskContext p') = WAITING
      \<and> procedureContext p' = Context c'
      \<and> nextAddress c' = 1"
proof -
  have "ucast (0x7801 :: 16 word) = encodeInstruction LOAD MESSAGE 1"
    by (simp add: encodeInstruction_def types_defs OPCODE_MASK_def MODCODE_MASK_def)
  from LOAD_MESSAGE_on_empty_queue_waits
    [of "exampleProcessor [] [] [] waitingContext" waitingContext "0x7801" 1
      "Reference ''queue'' ''v1'' ''none''" "[]", OF _ _ this]
  show ?thesis
    by (simp add: exampleProcessor_def waitingContext_def importProcedure_def
        exampleProcedure_def getItem_def emptyRepository_def)
qed

text \<open>
  Claim C5. A task of three frames with a balance of 1 whose first instruction is HANDLE
  RESULT (word 0xE800), with one value on the component stack. The instruction is charged:
  the balance is 0 and the clock cycles are 1, and the status is still ACTIVE. The
  instruction has made the caller's procedure document, which was never imported, the
  current procedure context, so that \<open>isRunnable\<close> raises a TypeError before it looks at
  the balance: \<open>run\<close> does not stop and finalize, it raises.
\<close>

theorem balance_zero_after_return_raises:
  "stepTask [] emptyRepository
     ((exampleTask [Symbol ''$value''] []
        [exampleProcedure [0xE8, 0x00, 0, 0, 0, 0, 0, 0] [] [],
         exampleProcedure [] [] [], exampleProcedure [] [] []])
        \<lparr>doc_accountBalance := 1\<rparr>)
     = Inr \<lparr>status_of = ACTIVE, balance_of = 0, cycles_of = 1,
            components_of = [Symbol ''$value''], handlers_of = [], frames_of = 1,
            result_of = None, exception_of = None, nextAddress_of = None\<rparr>
   \<and> runTask [] emptyRepository
     ((exampleTask [Symbol ''$value''] []
        [exampleProcedure [0xE8, 0x00, 0, 0, 0, 0, 0, 0] [] [],
         exampleProcedure [] [] [], exampleProcedure [] [] []])
        \<lparr>doc_accountBalance := 1\<rparr>)
     = Inl (TypeError ''Cannot read property length of undefined'')"
  by code_simp

text \<open>
  Claim C9. The two machines do not apply the same entry of the table. With a table whose
  slot 0 raises and whose slot 1 returns, INVOKE 1 of the processor pushes what slot 1
  returns, and INVOKE 1 of the earlier machine raises what slot 0 raises.
\<close>

theorem INVOKE_applies_different_entries:
  "processorComponents (INVOKE_symbol exampleIntrinsics
       (exampleProcessor [] [] [] (importProcedure (exampleProcedure [] [] [])))
       (importProcedure (exampleProcedure [] [] [])) 1) = Inr [Symbol ''$second'']
   \<and> bvm_INVOKE_symbol exampleIntrinsics 1 = Inl (IntrinsicFailure (Symbol ''$first''))"
  by code_simp

text \<open>
  Claim C9, as amended. For every operand \<open>k\<close> of at least 1, each of the four INVOKE
  handlers of the processor applies slot \<open>k\<close> of the table to the parameters it has popped:
  it raises what that entry raises and pushes what it returns. The parameterless INVOKE
  \<open>k + 1\<close> of the earlier machine applies the same slot \<open>k\<close>: what that entry raises, the
  instruction raises.
\<close>

theorem INVOKE_applies_entry_k:
  assumes "1 \<le> k"
  shows "INVOKE_symbol fs p c k =
           (case applyIntrinsic fs k [] of
              Inl e \<Rightarrow> Inl e
            | Inr r \<Rightarrow> Inr (pushComponent r p))
       \<and> INVOKE_symbol_WITH_PARAMETER fs p c k =
           (case popComponent p of
              Inl e \<Rightarrow> Inl e
            | Inr (x1, p1) \<Rightarrow>
                (case applyIntrinsic fs k [x1] of
                   Inl e \<Rightarrow> Inl e
                 | Inr r \<Rightarrow> Inr (pushComponent r p1)))
       \<and> INVOKE_symbol_WITH_2_PARAMETERS fs p c k =
           (case popComponent p of
              Inl e \<Rightarrow> Inl e
            | Inr (x1, p1) \<Rightarrow>
                (case popComponent p1 of
                   Inl e \<Rightarrow> Inl e
                 | Inr (x2, p2) \<Rightarrow>
                     (case applyIntrinsic fs k [x1, x2] of
                        Inl e \<Rightarrow> Inl e
                      | Inr r \<Rightarrow> Inr (pushComponent r p2))))
       \<and> INVOKE_symbol_WITH_3_PARAMETERS fs p c k =
           (case popComponent p of
              Inl e \<Rightarrow> Inl e
            | Inr (x1, p1) \<Rightarrow>
                (case popComponent p1 of
                   Inl e \<Rightarrow> Inl e
                 | Inr (x2, p2) \<Rightarrow>
                     (case popComponent p2 of
                        Inl e \<Rightarrow> Inl e
                      | Inr (x3, p3) \<Rightarrow>
                          (case applyIntrinsic fs k [x1, x2, x3] of
                             Inl e \<Rightarrow> Inl e
                           | Inr r \<Rightarrow> Inr (pushComponent r p3)))))
       \<and> (applyIntrinsic fs k [] = Inl e \<longrightarrow> bvm_INVOKE_symbol fs (k + 1) = Inl e)"
  using assms
  by (simp add: INVOKE_symbol_def INVOKE_symbol_WITH_PARAMETER_def
      INVOKE_symbol_WITH_2_PARAMETERS_def INVOKE_symbol_WITH_3_PARAMETERS_def
      bvm_INVOKE_symbol_def)

theorem INVOKE_applies_entry_k_witness:
  "(1 :: int) \<le> 1
   \<and> processorComponents (INVOKE_symbol exampleIntrinsics
        (exampleProcessor [] [] [] (importProcedure (exampleProcedure [] [] [])))
        (importProcedure (exampleProcedure [] [] [])) 1) = Inr [Symbol ''$second'']
   \<and> applyIntrinsic failingIntrinsics 1 [] = Inl (IntrinsicFailure (Symbol ''$second''))
   \<and> INVOKE_symbol failingIntrinsics
        (exampleProcessor [] [] [] (importProcedure (exampleProcedure [] [] [])))
        (importProcedure (exampleProcedure [] [] [])) 1
      = Inl (IntrinsicFailure (Symbol ''$second''))
   \<and> bvm_INVOKE_symbol failingIntrinsics (1 + 1) = Inl (IntrinsicFailure (Symbol ''$second''))"
proof -
  have returns: "applyIntrinsic exampleIntrinsics 1 [] = Inr (Symbol ''$second'')"
    by (simp add: applyIntrinsic_def exampleIntrinsics_def)
  have raises: "applyIntrinsic failingIntrinsics 1 [] = Inl (IntrinsicFailure (Symbol ''$second''))"
    by (simp add: applyIntrinsic_def failingIntrinsics_def)
  from INVOKE_applies_entry_k [of 1 exampleIntrinsics
      "exampleProcessor [] [] [] (importProcedure (exampleProcedure [] [] []))"
      "importProcedure (exampleProcedure [] [] [])"]
    INVOKE_applies_entry_k [of 1 failingIntrinsics
      "exampleProcessor [] [] [] (importProcedure (exampleProcedure [] [] []))"
      "importProcedure (exampleProcedure [] [] [])" "IntrinsicFailure (Symbol ''$second'')"]
    returns raises
  show ?thesis
    by (simp add: processorComponents_def pushComponent_def exampleProcessor_def
        importTask_def exampleTask_def)
qed

text \<open>
  Claim C6. A task of one frame (four SKIP instructions) with a balance of 1 is started and
  run: one instruction is executed and the task is suspended. The task document that the
  suspension event carries has an empty procedure stack: the frame, with its bytecode and
  its address, is not in it, and starting the document again fails on the empty stack. The
  exported document never depends on the current procedure context of the processor.
\<close>

theorem suspended_task_loses_current_frame:
  "suspendTask [] emptyRepository
     ((exampleTask [] [] [exampleProcedure [0, 0, 0, 0, 0, 0, 0, 0] [] []])
        \<lparr>doc_accountBalance := 1\<rparr>)
     = Inr [(exampleTask [] [] [])\<lparr>doc_accountBalance := 0, doc_clockCycles := 1\<rparr>]
   \<and> resumeTask emptyRepository
        ((exampleTask [] [] [])\<lparr>doc_accountBalance := 0, doc_clockCycles := 1\<rparr>)
     = Inl StackUnderflow
   \<and> exportTask (taskContext (p\<lparr>procedureContext := f\<rparr>)) = exportTask (taskContext p)"
proof -
  have "suspendTask [] emptyRepository
     ((exampleTask [] [] [exampleProcedure [0, 0, 0, 0, 0, 0, 0, 0] [] []])
        \<lparr>doc_accountBalance := 1\<rparr>)
     = Inr [(exampleTask [] [] [])\<lparr>doc_accountBalance := 0, doc_clockCycles := 1\<rparr>]"
    by code_simp
  moreover have "resumeTask emptyRepository
        ((exampleTask [] [] [])\<lparr>doc_accountBalance := 0, doc_clockCycles := 1\<rparr>)
     = Inl StackUnderflow"
    by code_simp
  ultimately show ?thesis by simp
qed

text \<open>
  Claim C3. The scenario of one SKIP instruction: an active task with a balance of 10 whose
  procedure has the single word 0x0000 and starts at address 1. The bytecode is imported as
  one word, \<open>isRunnable\<close> is false because 1 * 4 exceeds that length, and \<open>run\<close> executes
  nothing: no clock cycle, the balance and the address as they were.
\<close>

theorem single_word_procedure_is_not_runnable:
  "bytecodeInstructions (importProcedure (exampleProcedure [0x00, 0x00] [] [])) = [0]
   \<and> isRunnable (exampleProcessor [] [] []
        (importProcedure (exampleProcedure [0x00, 0x00] [] []))) = Inr False
   \<and> runTask [] emptyRepository (exampleTask [] [] [exampleProcedure [0x00, 0x00] [] []])
     = Inr \<lparr>status_of = ACTIVE, balance_of = 10, cycles_of = 0, components_of = [],
            handlers_of = [], frames_of = 0, result_of = None, exception_of = None,
            nextAddress_of = Some 1\<rparr>"
  by code_simp

text \<open>
  Claim C2. The scenario of the unconditional jump: bytecode JUMP TO 3, 0xFFFF, HANDLE
  RESULT (words 0x0003, 0xFFFF, 0xE800) with one value on the component stack. \<open>run\<close>
  executes nothing, since 1 * 4 exceeds the three words; the task stays ACTIVE without a
  result. With a fourth word, so that the first instruction is fetched, the jump is the
  only instruction executed: it stores 3, \<open>executeInstruction\<close> increments it, and \<open>run\<close>
  stops at address 4 with the task still ACTIVE and without a result.
\<close>

theorem jump_scenario_never_reaches_result:
  "runTask [] emptyRepository
     (exampleTask [Symbol ''$value''] []
        [exampleProcedure [0x00, 0x03, 0xFF, 0xFF, 0xE8, 0x00] [] []])
     = Inr \<lparr>status_of = ACTIVE, balance_of = 10, cycles_of = 0,
            components_of = [Symbol ''$value''], handlers_of = [], frames_of = 0,
            result_of = None, exception_of = None, nextAddress_of = Some 1\<rparr>
   \<and> runTask [] emptyRepository
     (exampleTask [Symbol ''$value''] []
        [exampleProcedure [0x00, 0x03, 0xFF, 0xFF, 0xE8, 0x00, 0x00, 0x00] [] []])
     = Inr \<lparr>status_of = ACTIVE, balance_of = 9, cycles_of = 1,
            components_of = [Symbol ''$value''], handlers_of = [], frames_of = 0,
            result_of = None, exception_of = None, nextAddress_of = Some 4\<rparr>"
  by code_simp

text \<open>
  Claim C1. HANDLE EXCEPTION (word 0xE000) with one handler address, 4, on the handler
  stack and the exception on the component stack. When a frame is left on the procedure
  stack, the handler address is popped and then the exception and the frame are popped as
  well, and the task is DONE with the exception. When the procedure stack is empty (the
  task had a single frame, which \<open>fromTask\<close> popped), the instruction pops no handler and
  leaves the address alone.
\<close>

theorem HANDLE_EXCEPTION_ends_task_despite_handler:
  "stepTask [] emptyRepository
     (exampleTask [Symbol ''$boom''] [4]
        [exampleProcedure [0xE0, 0x00, 0, 0, 0, 0, 0, 0] [] [], exampleProcedure [] [] []])
     = Inr \<lparr>status_of = DONE, balance_of = 9, cycles_of = 1, components_of = [],
            handlers_of = [], frames_of = 0, result_of = None,
            exception_of = Some (Symbol ''$boom''), nextAddress_of = Some 5\<rparr>
   \<and> stepTask [] emptyRepository
     (exampleTask [Symbol ''$boom''] [4]
        [exampleProcedure [0xE0, 0x00, 0, 0, 0, 0, 0, 0] [] []])
     = Inr \<lparr>status_of = ACTIVE, balance_of = 9, cycles_of = 1,
            components_of = [Symbol ''$boom''], handlers_of = [4], frames_of = 0,
            result_of = None, exception_of = None, nextAddress_of = Some 2\<rparr>"
  by code_simp

end
